theory Spec2Isabelle
  imports Complex_Main "HOL-Library.Sublist"
begin

section \<open>Signals and errors\<close>

text \<open>
  A \<^verbatim>\<open>Signal\<close> carries a time axis, amplitude samples and a value-type tag.
  Python floats are taken as real numbers; exceptions are values of type \<open>error\<close>.
\<close>

datatype value_type = Undefined | Voltage | Field | Power

record signal =
  sig_times :: "real list"
  sig_values :: "real list"
  sig_value_type :: value_type

datatype error =
    IndexError
  | KeyError string
  | ValueError string
  | ModuleNotFoundError string

section \<open>The trigger of \<^verbatim>\<open>IREXAntennaSystem\<close>\<close>

text \<open>
  The inner loop of \<^verbatim>\<open>trigger\<close>:
  \<^verbatim>\<open>while i<imax-1 and signal.values[i]>self.trigger_threshold: i += 1\<close>.
  It is only entered with \<open>i < imax\<close>, so \<open>i < imax - 1\<close> is \<open>i + 1 < imax\<close>.
  Reading \<^verbatim>\<open>signal.values[i]\<close> past the end of the array raises.
\<close>

function advance :: "real \<Rightarrow> real list \<Rightarrow> nat \<Rightarrow> nat \<Rightarrow> error + nat" where
  "advance thr vs imax i =
     (if i + 1 < imax then
        (if i < length vs then
           (if vs ! i > thr then advance thr vs imax (i + 1) else Inr i)
         else Inl IndexError)
      else Inr i)"
  by pat_completeness auto
termination
  by (relation "measure (\<lambda>(thr, vs, imax, i). imax - i)") auto

declare advance.simps [simp del]

lemma advance_ge: "advance thr vs imax i = Inr e \<Longrightarrow> i \<le> e"
proof (induction thr vs imax i rule: advance.induct)
  case (1 thr vs imax i)
  show ?case
  proof (cases "i + 1 < imax \<and> i < length vs \<and> vs ! i > thr")
    case True
    with "1.prems" have "advance thr vs imax (i + 1) = Inr e"
      by (simp add: advance.simps [of thr vs imax i])
    with True "1.IH" have "i + 1 \<le> e" by simp
    then show ?thesis by simp
  next
    case False
    with "1.prems" show ?thesis
      by (simp add: advance.simps [of thr vs imax i] split: if_splits)
  qed
qed

text \<open>
  The outer loop of \<^verbatim>\<open>trigger\<close>: \<open>j\<close> is the value of \<open>i\<close> on entry, the inner
  loop moves \<open>i\<close> to \<open>e\<close>, and a duration \<^verbatim>\<open>times[i]-times[j]\<close> is compared with
  \<^verbatim>\<open>time_over_threshold\<close> only when \<open>i\<close> has moved.
\<close>

function trigger_scan ::
  "real \<Rightarrow> real \<Rightarrow> real list \<Rightarrow> real list \<Rightarrow> nat \<Rightarrow> nat \<Rightarrow> error + bool" where
  "trigger_scan thr tot ts vs imax j =
     (if j < imax then
        (case advance thr vs imax j of
           Inl err \<Rightarrow> Inl err
         | Inr e \<Rightarrow>
             (if e \<noteq> j \<and> ts ! e - ts ! j > tot then Inr True
              else trigger_scan thr tot ts vs imax (e + 1)))
      else Inr False)"
  by pat_completeness auto
termination
proof (relation "measure (\<lambda>(thr, tot, ts, vs, imax, j). imax - j)", goal_cases)
  case 1
  show ?case by simp
next
  case (2 thr tot ts vs imax j e)
  then have "j \<le> e" by (auto dest: advance_ge)
  with 2 show ?case by auto
qed

declare trigger_scan.simps [simp del]

record irex_config =
  amplification :: real
  amplifier_clipping :: real
  trigger_threshold :: real
  time_over_threshold :: real
  envelope_method :: string

definition trigger :: "'a irex_config_scheme \<Rightarrow> signal \<Rightarrow> error + bool" where
  "trigger cfg s =
     trigger_scan (trigger_threshold cfg) (time_over_threshold cfg)
       (sig_times s) (sig_values s) (length (sig_times s)) 0"

section \<open>The envelope detector and the front end\<close>

text \<open>
  The modules \<^verbatim>\<open>pyrex.signals\<close> and \<^verbatim>\<open>pyrex.custom.irex.frontends\<close> and the
  \<^verbatim>\<open>Antenna\<close> base class are imported by the source and are not part of it.  What
  the source uses from them is a parameter of the model:
  the tag the \<^verbatim>\<open>Signal\<close> constructor gives when none is passed, the
  \<^verbatim>\<open>envelope\<close> and \<^verbatim>\<open>dt\<close> properties and the \<^verbatim>\<open>with_times\<close> and addition
  operations of a signal, \<^verbatim>\<open>basic_envelope_model\<close>, the availability flag and the
  message of \<^verbatim>\<open>pyspice\<close>, the dictionary \<^verbatim>\<open>spice_circuits\<close> (in iteration
  order), the output of a transient simulation, and the stateful noise generator
  \<^verbatim>\<open>make_noise\<close> of the antenna (\<open>'n\<close> is the state of its random source).
\<close>

record ('c, 'n) externals =
  signal_default_type :: value_type
  signal_envelope :: "signal \<Rightarrow> real list"
  signal_dt :: "signal \<Rightarrow> real"
  with_times :: "signal \<Rightarrow> real list \<Rightarrow> signal"
  signal_add :: "signal \<Rightarrow> signal \<Rightarrow> signal"
  basic_envelope_model :: "signal \<Rightarrow> signal"
  pyspice_available :: bool
  pyspice_modulenotfound :: string
  spice_circuits :: "(string \<times> 'c) list"
  transient_output :: "'c \<Rightarrow> signal \<Rightarrow> real \<Rightarrow> real \<Rightarrow> real list"
  make_noise :: "'n \<Rightarrow> real list \<Rightarrow> signal \<times> 'n"

text \<open>\<^verbatim>\<open>Signal(times, values)\<close>, with no value type given.\<close>

definition Signal :: "('c, 'n) externals \<Rightarrow> real list \<Rightarrow> real list \<Rightarrow> signal" where
  "Signal ext ts vs =
     \<lparr>sig_times = ts, sig_values = vs, sig_value_type = signal_default_type ext\<rparr>"

text \<open>
  The calls into the circuit simulator, in the order they are made: building the
  simulator input from a signal, creating the simulator of a circuit, running the
  transient analysis.
\<close>

datatype 'c spice_call = SpiceSignal signal | Simulator 'c | Transient 'c

text \<open>
  Python's \<^verbatim>\<open>a in b\<close> on strings is \<^term>\<open>sublist a b\<close>.  The circuit is the value of
  the first key of \<^verbatim>\<open>spice_circuits\<close> contained in the method string; failing that,
  one of three aliases is looked up in the dictionary, which raises \<^verbatim>\<open>KeyError\<close>
  when the key is absent.
\<close>

definition circuit_lookup :: "(string \<times> 'c) list \<Rightarrow> string \<Rightarrow> error + 'c option" where
  "circuit_lookup circuits key =
     (case map_of circuits key of
        None \<Rightarrow> Inl (KeyError key)
      | Some val \<Rightarrow> Inr (Some val))"

definition match_circuit :: "(string \<times> 'c) list \<Rightarrow> string \<Rightarrow> error + 'c option" where
  "match_circuit circuits m =
     (case find (\<lambda>(key, val). sublist key m) circuits of
        Some (key, val) \<Rightarrow> Inr (Some val)
      | None \<Rightarrow>
          (if sublist ''simple'' m then circuit_lookup circuits ''basic''
           else if sublist ''log amp'' m \<or> sublist ''logarithmic amp'' m
             then circuit_lookup circuits ''logamp''
           else if sublist ''rectifier'' m then circuit_lookup circuits ''bridge''
           else Inr None))"

text \<open>
  \<^verbatim>\<open>make_envelope\<close> returns the envelope or the exception raised, together with the
  simulator calls made up to that point.
\<close>

definition make_envelope ::
  "('c, 'n) externals \<Rightarrow> 'a irex_config_scheme \<Rightarrow> signal
     \<Rightarrow> (error + signal) \<times> 'c spice_call list" where
  "make_envelope ext cfg s =
     (let m = envelope_method cfg in
      if sublist ''hilbert'' m then
        (Inr \<lparr>sig_times = sig_times s, sig_values = signal_envelope ext s,
              sig_value_type = sig_value_type s\<rparr>, [])
      else if sublist ''analytic'' m then
        (if sublist ''basic'' m \<or> m = ''analytic''
         then (Inr (basic_envelope_model ext s), [])
         else (Inl (ValueError ''Only basic envelope circuit is modeled analytically''), []))
      else if sublist ''spice'' m then
        (if \<not> pyspice_available ext
         then (Inl (ModuleNotFoundError (pyspice_modulenotfound ext)), [])
         else if m = ''spice''
         then (Inl (ValueError ''Type of spice circuit to use must be specified''), [])
         else
           (case sig_times s of
              [] \<Rightarrow> (Inl IndexError, [])
            | t0 # rest \<Rightarrow>
                (let copy = Signal ext (map (\<lambda>t. t - t0) (sig_times s)) (sig_values s) in
                 case match_circuit (spice_circuits ext) m of
                   Inl err \<Rightarrow> (Inl err, [SpiceSignal copy])
                 | Inr None \<Rightarrow>
                     (Inl (ValueError (''Circuit '' @ [CHR 0x27] @ m @ [CHR 0x27]
                                        @ '' not implemented'')),
                      [SpiceSignal copy])
                 | Inr (Some circuit) \<Rightarrow>
                     (Inr \<lparr>sig_times = sig_times s,
                           sig_values = transient_output ext circuit copy (signal_dt ext s)
                                          (last (sig_times copy)),
                           sig_value_type = sig_value_type s\<rparr>,
                      [SpiceSignal copy, Simulator circuit, Transient circuit]))))
      else (Inl (ValueError (''No envelope method matching '' @ [CHR 0x27] @ m
                               @ [CHR 0x27])), []))"

text \<open>\<^verbatim>\<open>np.clip(a, a_min, a_max)\<close> is \<^verbatim>\<open>minimum(a_max, maximum(a, a_min))\<close>.\<close>

definition clip :: "real \<Rightarrow> real \<Rightarrow> real \<Rightarrow> real" where
  "clip a a_min a_max = min a_max (max a a_min)"

definition amplified_values :: "'a irex_config_scheme \<Rightarrow> signal \<Rightarrow> real list" where
  "amplified_values cfg s =
     map (\<lambda>v. clip (v * amplification cfg) (- amplifier_clipping cfg) (amplifier_clipping cfg))
       (sig_values s)"

definition front_end ::
  "('c, 'n) externals \<Rightarrow> 'a irex_config_scheme \<Rightarrow> signal
     \<Rightarrow> (error + signal) \<times> 'c spice_call list" where
  "front_end ext cfg s =
     make_envelope ext cfg (Signal ext (sig_times s) (amplified_values cfg s))"

text \<open>
  Modelled from the spec: the \<^verbatim>\<open>envelope\<close> property of \<^verbatim>\<open>Signal\<close>
  (\<^verbatim>\<open>pyrex.signals\<close> is not part of the source), which the spec describes as "an
  analytic-signal (Hilbert-transform-based) magnitude extraction over the full input".
  The discrete analytic signal of \<open>N\<close> samples is the inverse transform of their
  discrete Fourier transform with the negative frequencies removed and the positive
  ones doubled; the envelope is its modulus.
\<close>

definition dft :: "real list \<Rightarrow> nat \<Rightarrow> complex" where
  "dft xs k =
     (\<Sum>n\<leftarrow>[0..<length xs].
        of_real (xs ! n) * cis (- (2 * pi * real k * real n / real (length xs))))"

definition one_sided :: "nat \<Rightarrow> nat \<Rightarrow> real" where
  "one_sided N k = (if k = 0 \<or> 2 * k = N then 1 else if 2 * k < N then 2 else 0)"

definition analytic_signal :: "real list \<Rightarrow> nat \<Rightarrow> complex" where
  "analytic_signal xs n =
     (\<Sum>k\<leftarrow>[0..<length xs].
        of_real (one_sided (length xs) k) * dft xs k
          * cis (2 * pi * real k * real n / real (length xs))) / of_nat (length xs)"

definition analytic_envelope :: "signal \<Rightarrow> real list" where
  "analytic_envelope s =
     map (\<lambda>n. cmod (analytic_signal (sig_values s) n)) [0..<length (sig_values s)]"

text \<open>
  Stand-ins for the absent collaborators, used only to evaluate the model on concrete
  inputs: an untagged signal is \<open>Undefined\<close>, the envelope of a signal is that of
  its analytic signal, the simulator is available and knows the three circuits that the
  aliases of \<^verbatim>\<open>make_envelope\<close> name, and the noise generator draws zeros and counts
  its draws.
\<close>

definition example_externals :: "(nat, nat) externals" where
  "example_externals =
     \<lparr>signal_default_type = Undefined,
      signal_envelope = analytic_envelope,
      signal_dt = (\<lambda>s. 1),
      with_times = (\<lambda>s ts. s\<lparr>sig_times := ts\<rparr>),
      signal_add = (\<lambda>a b. a\<lparr>sig_values := map2 (+) (sig_values a) (sig_values b)\<rparr>),
      basic_envelope_model = (\<lambda>s. s\<lparr>sig_values := map abs (sig_values s)\<rparr>),
      pyspice_available = True,
      pyspice_modulenotfound = ''PySpice was not imported'',
      spice_circuits = [(''basic'', 0), (''logamp'', 1), (''bridge'', 2)],
      transient_output = (\<lambda>c s dt end_time. map abs (sig_values s)),
      make_noise = (\<lambda>n ts. (\<lparr>sig_times = ts, sig_values = map (\<lambda>t. 0) ts,
                                sig_value_type = Voltage\<rparr>, n + 1))\<rparr>"

definition example_config :: "string \<Rightarrow> irex_config" where
  "example_config m =
     \<lparr>amplification = 1, amplifier_clipping = 3, trigger_threshold = 1,
      time_over_threshold = 0, envelope_method = m\<rparr>"

definition example_signal :: signal where
  "example_signal = \<lparr>sig_times = [0, 1, 2], sig_values = [0, 5, - 1], sig_value_type = Voltage\<rparr>"

section \<open>The waveform cache\<close>

text \<open>
  The state of an antenna system that \<^verbatim>\<open>all_waveforms\<close> reads and writes: the raw
  signals of the antenna (\<^verbatim>\<open>self.antenna.signals\<close>), the processed waveforms
  (\<^verbatim>\<open>self._all_waveforms\<close>) and the state of the noise generator.
\<close>

record 'n antenna_system =
  signals :: "signal list"
  waveform_cache :: "signal list"
  noise_state :: 'n

text \<open>
  \<^verbatim>\<open>np.concatenate((t-t[-1]+t[0], t[1:]))\<close>; indexing an empty time axis raises.
\<close>

definition long_times :: "real list \<Rightarrow> error + real list" where
  "long_times t =
     (case t of
        [] \<Rightarrow> Inl IndexError
      | t0 # rest \<Rightarrow> Inr (map (\<lambda>x. x - last t + t0) t @ rest))"

text \<open>
  The body of the loop of \<^verbatim>\<open>all_waveforms\<close> for one raw signal: the waveform to
  append or the exception, and the noise state after the draw.
\<close>

definition process_signal ::
  "('c, 'n) externals \<Rightarrow> 'a irex_config_scheme \<Rightarrow> 'n \<Rightarrow> signal \<Rightarrow> (error + signal) \<times> 'n" where
  "process_signal ext cfg n s =
     (case long_times (sig_times s) of
        Inl err \<Rightarrow> (Inl err, n)
      | Inr lt \<Rightarrow>
          (let long_signal = with_times ext s lt;
               (long_noise, n') = make_noise ext n lt
           in case fst (front_end ext cfg (signal_add ext long_signal long_noise)) of
                Inl err \<Rightarrow> (Inl err, n')
              | Inr long_waveform \<Rightarrow> (Inr (with_times ext long_waveform (sig_times s)), n')))"

function all_waveforms_loop ::
  "('c, 'n) externals \<Rightarrow> 'a irex_config_scheme \<Rightarrow> 'n antenna_system
     \<Rightarrow> error option \<times> 'n antenna_system" where
  "all_waveforms_loop ext cfg st =
     (if length (waveform_cache st) < length (signals st) then
        (case process_signal ext cfg (noise_state st)
                (signals st ! length (waveform_cache st)) of
           (Inl err, n') \<Rightarrow> (Some err, st\<lparr>noise_state := n'\<rparr>)
         | (Inr w, n') \<Rightarrow>
             all_waveforms_loop ext cfg
               (st\<lparr>waveform_cache := waveform_cache st @ [w], noise_state := n'\<rparr>))
      else (None, st))"
  by pat_completeness auto
termination
  by (relation "measure (\<lambda>(ext, cfg, st). length (signals st) - length (waveform_cache st))")
    auto

declare all_waveforms_loop.simps [simp del]

definition all_waveforms ::
  "('c, 'n) externals \<Rightarrow> 'a irex_config_scheme \<Rightarrow> 'n antenna_system
     \<Rightarrow> (error + signal list) \<times> 'n antenna_system" where
  "all_waveforms ext cfg st =
     (case all_waveforms_loop ext cfg st of
        (Some err, st') \<Rightarrow> (Inl err, st')
      | (None, st') \<Rightarrow> (Inr (waveform_cache st'), st'))"

text \<open>
  Modelled from the spec: \<^verbatim>\<open>receive\<close> of the antenna (the \<^verbatim>\<open>Antenna\<close> base class is
  not part of the source), which "appends a new raw signal to the antenna".
\<close>

definition receive :: "'n antenna_system \<Rightarrow> signal \<Rightarrow> 'n antenna_system" where
  "receive st s = st\<lparr>signals := signals st @ [s]\<rparr>"

text \<open>
  The states of an antenna system during its lifetime: created with no raw signal and
  no waveform, then any sequence of \<^verbatim>\<open>receive\<close> calls and \<^verbatim>\<open>all_waveforms\<close>
  accesses, whether the access returns or raises.
\<close>

inductive reachable ::
  "('c, 'n) externals \<Rightarrow> 'a irex_config_scheme \<Rightarrow> 'n antenna_system \<Rightarrow> bool"
  for ext :: "('c, 'n) externals" and cfg :: "'a irex_config_scheme" where
  created: "reachable ext cfg \<lparr>signals = [], waveform_cache = [], noise_state = n0\<rparr>"
| received: "reachable ext cfg st \<Longrightarrow> reachable ext cfg (receive st s)"
| accessed: "reachable ext cfg st \<Longrightarrow> reachable ext cfg (snd (all_waveforms ext cfg st))"

text \<open>
  Processing a list of raw signals one after the other, each with the noise state left
  by the one before, up to the first exception.
\<close>

fun process_all ::
  "('c, 'n) externals \<Rightarrow> 'a irex_config_scheme \<Rightarrow> 'n \<Rightarrow> signal list
     \<Rightarrow> signal list \<times> error option \<times> 'n" where
  "process_all ext cfg n [] = ([], None, n)"
| "process_all ext cfg n (s # ss) =
     (case process_signal ext cfg n s of
        (Inl err, n') \<Rightarrow> ([], Some err, n')
      | (Inr w, n') \<Rightarrow>
          (case process_all ext cfg n' ss of (ws, r, n'') \<Rightarrow> (w # ws, r, n'')))"

section \<open>The event kernel\<close>

text \<open>
  Vectors are arrays of reals.  \<^verbatim>\<open>np.vdot\<close> and the arithmetic of the kernel are
  used on vectors of one length.
\<close>

type_synonym vec = "real list"

definition vdot :: "vec \<Rightarrow> vec \<Rightarrow> real" where
  "vdot a b = (\<Sum>(x, y)\<leftarrow>zip a b. x * y)"

definition linalg_norm :: "vec \<Rightarrow> real" where
  "linalg_norm v = sqrt (\<Sum>x\<leftarrow>v. \<bar>x\<bar>\<^sup>2)"

definition normalize :: "vec \<Rightarrow> vec" where
  "normalize v =
     (let mag = linalg_norm v in
      if mag = 0 then v else map (\<lambda>x. x / mag) v)"

text \<open>\<^verbatim>\<open>normalize(np.vdot(k, p.direction) * k - p.direction)\<close>\<close>

definition polarization :: "vec \<Rightarrow> vec \<Rightarrow> vec" where
  "polarization k d = normalize (map2 (-) (map (\<lambda>x. vdot k d * x) k) d)"

record particle =
  vertex :: vec
  direction :: vec
  energy :: real

text \<open>
  What the kernel reads from a path finder; \<^verbatim>\<open>propagate\<close> changes the pulse it is
  given and is a function on signals here.
\<close>

record path =
  path_exists :: bool
  emitted_ray :: vec
  received_ray :: vec
  path_length :: real
  propagate :: "signal \<Rightarrow> signal"

text \<open>
  The collaborators of the kernel, none of them part of the source: the ice model, the
  two path finders, the constructor of the Askaryan pulse (times, energy, angle, index of
  refraction), and the position and the \<^verbatim>\<open>receive\<close> operation (signal, origin,
  polarization) of an antenna of type \<open>'ant\<close>.
\<close>

record 'ant kernel_externals =
  ice_index :: "real \<Rightarrow> real"
  PathFinder :: "vec \<Rightarrow> vec \<Rightarrow> path"
  ReflectedPathFinder :: "vec \<Rightarrow> vec \<Rightarrow> path"
  AskaryanSignal :: "real list \<Rightarrow> real \<Rightarrow> real \<Rightarrow> real \<Rightarrow> signal"
  ant_position :: "'ant \<Rightarrow> vec"
  ant_receive :: "'ant \<Rightarrow> signal \<Rightarrow> vec \<Rightarrow> vec \<Rightarrow> 'ant"

text \<open>The calls a path gives rise to, in the order they are made.\<close>

datatype kernel_call = BuildPulse real | Propagate | Receive

text \<open>\<^verbatim>\<open>np.linspace(-20e-9, 80e-9, 2048, endpoint=False)\<close>\<close>

definition pulse_times :: "real list" where
  "pulse_times = map (\<lambda>i. - 20 / 10 ^ 9 + real i * (100 / 10 ^ 9 / 2048)) [0..<2048]"

text \<open>
  The body of the loop over the two paths of an antenna.  The vectors of a path are unit
  vectors, so the dot product given to \<^verbatim>\<open>np.arccos\<close> is in \<open>[-1, 1]\<close> and the
  path length is positive.
\<close>

definition event_path ::
  "'ant kernel_externals \<Rightarrow> particle \<Rightarrow> real \<Rightarrow> 'ant \<times> kernel_call list \<Rightarrow> path
     \<Rightarrow> 'ant \<times> kernel_call list" where
  "event_path ext p n acc pth =
     (if \<not> path_exists pth then acc
      else
        (let k = received_ray pth;
             epol = polarization k (direction p);
             psi = arccos (vdot (direction p) (emitted_ray pth))
         in if psi > pi / 2 then acc
            else
              (let pulse = AskaryanSignal ext pulse_times (energy p) psi n;
                   pulse = propagate pth pulse;
                   pulse = pulse\<lparr>sig_values :=
                             map (\<lambda>v. v / path_length pth) (sig_values pulse)\<rparr>
               in (ant_receive ext (fst acc) pulse (vertex p) epol,
                   snd acc @ [BuildPulse psi, Propagate, Receive]))))"

definition event_antenna ::
  "'ant kernel_externals \<Rightarrow> particle \<Rightarrow> real \<Rightarrow> 'ant \<Rightarrow> 'ant \<times> kernel_call list" where
  "event_antenna ext p n ant =
     (let pf = PathFinder ext (vertex p) (ant_position ext ant);
          rpf = ReflectedPathFinder ext (vertex p) (ant_position ext ant)
      in foldl (event_path ext p n) (ant, []) [pf, rpf])"

text \<open>
  \<^verbatim>\<open>event\<close>, for the particle \<open>p\<close> drawn by the generator: the particle, and every
  antenna after the event with the calls made for it.  \<^verbatim>\<open>p.vertex[2]\<close> raises on a
  vertex of fewer than three coordinates.
\<close>

definition event ::
  "'ant kernel_externals \<Rightarrow> particle \<Rightarrow> 'ant list
     \<Rightarrow> error + particle \<times> ('ant \<times> kernel_call list) list" where
  "event ext p ant_array =
     (if length (vertex p) < 3 then Inl IndexError
      else
        (let n = ice_index ext (vertex p ! 2)
         in Inr (p, map (event_antenna ext p n) ant_array)))"

text \<open>
  The double nearest to \<open>1 / sqrt 3\<close>, \<^verbatim>\<open>0.5773502691896258\<close>: each coordinate of
  \<^verbatim>\<open>normalize((1, 1, 1))\<close>.
\<close>

definition diagonal_double :: real where
  "diagonal_double = 5200308914369309 / 9007199254740992"

text \<open>
  A kernel set-up for concrete evaluation: an antenna is its queue of raw signals, the
  direct path leaves the vertex straight down and the reflected path does not exist.
\<close>

definition example_kernel :: "signal list kernel_externals" where
  "example_kernel =
     \<lparr>ice_index = (\<lambda>z. 178 / 100),
      PathFinder = (\<lambda>v a. \<lparr>path_exists = True, emitted_ray = [0, 0, - 1],
                            received_ray = [0, 0, - 1], path_length = 100,
                            propagate = (\<lambda>s. s)\<rparr>),
      ReflectedPathFinder = (\<lambda>v a. \<lparr>path_exists = False, emitted_ray = [0, 0, 1],
                                     received_ray = [0, 0, - 1], path_length = 300,
                                     propagate = (\<lambda>s. s)\<rparr>),
      AskaryanSignal = (\<lambda>ts e theta n. \<lparr>sig_times = ts, sig_values = map (\<lambda>t. e) ts,
                                          sig_value_type = Field\<rparr>),
      ant_position = (\<lambda>a. [0, 0, - 300]),
      ant_receive = (\<lambda>a s origin pol. a @ [s])\<rparr>"

definition example_particle :: particle where
  "example_particle = \<lparr>vertex = [0, 0, - 200], direction = [0, 0, 1], energy = 1\<rparr>"

section \<open>How the trigger scan moves\<close>

lemma advance_stay:
  assumes "i + 1 < imax \<Longrightarrow> i < length vs \<and> vs ! i \<le> thr"
  shows "advance thr vs imax i = Inr i"
proof (cases "i + 1 < imax")
  case True
  with assms show ?thesis by (simp add: advance.simps [of thr vs imax i])
next
  case False
  then show ?thesis by (simp add: advance.simps [of thr vs imax i])
qed

lemma advance_run:
  assumes "i \<le> e" and "e < imax"
    and "\<forall>k. i \<le> k \<and> k < e \<longrightarrow> k < length vs \<and> vs ! k > thr"
    and "e + 1 < imax \<longrightarrow> e < length vs \<and> vs ! e \<le> thr"
  shows "advance thr vs imax i = Inr e"
  using assms
proof (induction "e - i" arbitrary: i)
  case 0
  then have "i = e" by simp
  with 0 show ?case by (simp add: advance_stay)
next
  case (Suc d)
  then have lt: "i < e" by simp
  with Suc.prems have here: "i + 1 < imax" "i < length vs" "vs ! i > thr" by auto
  have "advance thr vs imax (i + 1) = Inr e"
  proof (rule Suc.hyps(1))
    show "d = e - (i + 1)" using Suc.hyps(2) by simp
    show "i + 1 \<le> e" using lt by simp
    show "e < imax" by (rule Suc.prems(2))
    show "\<forall>k. i + 1 \<le> k \<and> k < e \<longrightarrow> k < length vs \<and> thr < vs ! k"
      using Suc.prems(3) by auto
    show "e + 1 < imax \<longrightarrow> e < length vs \<and> vs ! e \<le> thr" by (rule Suc.prems(4))
  qed
  with here show ?case by (simp add: advance.simps [of thr vs imax i])
qed

lemma trigger_scan_end: "trigger_scan thr tot ts vs imax imax = Inr False"
  by (simp add: trigger_scan.simps [of thr tot ts vs imax imax])

lemma trigger_scan_below:
  assumes "i \<le> j" and "j \<le> imax"
    and "\<forall>k. i \<le> k \<and> k < j \<longrightarrow> k < length vs \<and> vs ! k \<le> thr"
  shows "trigger_scan thr tot ts vs imax i = trigger_scan thr tot ts vs imax j"
  using assms
proof (induction "j - i" arbitrary: i)
  case 0
  then show ?case by simp
next
  case (Suc d)
  then have lt: "i < j" by simp
  with Suc.prems have "i < length vs \<and> vs ! i \<le> thr" by auto
  then have adv: "advance thr vs imax i = Inr i" by (simp add: advance_stay)
  have "trigger_scan thr tot ts vs imax (i + 1) = trigger_scan thr tot ts vs imax j"
  proof (rule Suc.hyps(1))
    show "d = j - (i + 1)" using Suc.hyps(2) by simp
    show "i + 1 \<le> j" using lt by simp
    show "j \<le> imax" by (rule Suc.prems(2))
    show "\<forall>k. i + 1 \<le> k \<and> k < j \<longrightarrow> k < length vs \<and> vs ! k \<le> thr"
      using Suc.prems(3) by auto
  qed
  moreover have "i < imax" using lt Suc.prems(2) by simp
  ultimately show ?case
    using adv by (simp add: trigger_scan.simps [of thr tot ts vs imax i])
qed

text \<open>
  One run of samples above the threshold, at the indices \<open>j, \<dots>, r - 1\<close>, all other
  samples at or below it.  The inner loop stops at \<open>e\<close>: the first sample after the
  run, or the last sample of the waveform when the run reaches it.
\<close>

lemma trigger_scan_single_run:
  assumes len: "imax \<le> length vs"
    and run: "j < r" "r \<le> imax"
    and pre: "\<forall>k < j. vs ! k \<le> thr"
    and above: "\<forall>k. j \<le> k \<and> k < r \<longrightarrow> vs ! k > thr"
    and post: "\<forall>k. r \<le> k \<and> k < imax \<longrightarrow> vs ! k \<le> thr"
  shows "trigger_scan thr tot ts vs imax 0 =
           Inr (min r (imax - 1) \<noteq> j \<and> ts ! (min r (imax - 1)) - ts ! j > tot)"
proof -
  define e where "e = min r (imax - 1)"
  have je: "j \<le> e" and ei: "e < imax" and er: "e \<le> r"
    using run by (auto simp: e_def)
  have "trigger_scan thr tot ts vs imax 0 = trigger_scan thr tot ts vs imax j"
    using len run pre by (intro trigger_scan_below) auto
  moreover have adv: "advance thr vs imax j = Inr e"
  proof (rule advance_run [OF je ei])
    show "\<forall>k. j \<le> k \<and> k < e \<longrightarrow> k < length vs \<and> thr < vs ! k"
      using above er ei len by auto
    show "e + 1 < imax \<longrightarrow> e < length vs \<and> vs ! e \<le> thr"
      using post len by (auto simp: e_def min_def)
  qed
  moreover have "trigger_scan thr tot ts vs imax (e + 1) = Inr False"
  proof -
    have "trigger_scan thr tot ts vs imax (e + 1) = trigger_scan thr tot ts vs imax imax"
      using len post ei by (intro trigger_scan_below) (auto simp: e_def min_def)
    then show ?thesis by (simp add: trigger_scan_end)
  qed
  moreover have "j < imax" using run by simp
  ultimately show ?thesis
    by (simp add: trigger_scan.simps [of thr tot ts vs imax j] e_def)
qed

section \<open>Claims about the trigger\<close>

text \<open>
  C1 (as stated): a waveform whose only run above the threshold reaches the final
  sample never triggers.  The code does trigger on such a run: with samples
  \<open>[0, 5, 5]\<close> at times \<open>[0, 1, 2]\<close>, threshold 1 and minimum duration 0, the inner
  loop stops at the last index 2, the run started at 1, and \<open>2 - 1 > 0\<close>.
\<close>

theorem trigger_final_run_counterexample:
  "trigger \<lparr>amplification = 1, amplifier_clipping = 3, trigger_threshold = 1,
            time_over_threshold = 0, envelope_method = ''analytic''\<rparr>
     \<lparr>sig_times = [0, 1, 2], sig_values = [0, 5, 5], sig_value_type = Voltage\<rparr>
   = Inr True"
  by (simp add: trigger_def trigger_scan.simps advance.simps)

text \<open>
  C1 (amended): for a waveform whose only run above the threshold reaches the final
  sample, \<^verbatim>\<open>trigger\<close> returns false when the run is the final sample alone, whatever
  the minimum duration; a run of two or more samples triggers exactly when the time from
  its first sample to the final sample strictly exceeds \<^verbatim>\<open>time_over_threshold\<close>.
\<close>

theorem trigger_final_run:
  assumes "length (sig_times s) = length (sig_values s)"
    and "sig_values s = pre @ run" and "run \<noteq> []"
    and "\<forall>x \<in> set pre. x \<le> trigger_threshold cfg"
    and "\<forall>x \<in> set run. x > trigger_threshold cfg"
  shows "trigger cfg s =
           Inr (2 \<le> length run \<and>
                sig_times s ! (length (sig_values s) - 1) - sig_times s ! (length pre)
                  > time_over_threshold cfg)"
proof -
  let ?vs = "sig_values s" and ?n = "length (sig_values s)" and ?j = "length pre"
  have n: "?n = ?j + length run" using assms(2) by simp
  have pos: "0 < length run" using assms(3) by simp
  have "trigger_scan (trigger_threshold cfg) (time_over_threshold cfg) (sig_times s) ?vs ?n 0 =
          Inr (min ?n (?n - 1) \<noteq> ?j \<and>
               sig_times s ! (min ?n (?n - 1)) - sig_times s ! ?j > time_over_threshold cfg)"
  proof (rule trigger_scan_single_run)
    show "?n \<le> length ?vs" by simp
    show "?j < ?n" using n pos by simp
    show "?n \<le> ?n" by simp
    show "\<forall>k < ?j. ?vs ! k \<le> trigger_threshold cfg"
      using assms(2,4) by (simp add: nth_append)
    show "\<forall>k. ?j \<le> k \<and> k < ?n \<longrightarrow> ?vs ! k > trigger_threshold cfg"
      using assms(2,5) n by (auto simp: nth_append)
    show "\<forall>k. ?n \<le> k \<and> k < ?n \<longrightarrow> ?vs ! k \<le> trigger_threshold cfg" by simp
  qed
  moreover have "min ?n (?n - 1) = ?n - 1" by simp
  moreover have "?n - 1 \<noteq> ?j \<longleftrightarrow> 2 \<le> length run" using n pos by linarith
  ultimately show ?thesis using assms(1) by (simp add: trigger_def)
qed

theorem trigger_final_run_witness:
  "trigger \<lparr>amplification = 1, amplifier_clipping = 3, trigger_threshold = 1,
            time_over_threshold = 7, envelope_method = ''analytic''\<rparr>
     \<lparr>sig_times = [0, 1, 2, 3], sig_values = [0, 0, 0, 5], sig_value_type = Voltage\<rparr>
   = Inr False"
  using trigger_final_run [of
      "\<lparr>sig_times = [0, 1, 2, 3], sig_values = [0, 0, 0, 5], sig_value_type = Voltage\<rparr>"
      "[0, 0, 0]" "[5]"
      "\<lparr>amplification = 1, amplifier_clipping = 3, trigger_threshold = 1,
        time_over_threshold = 7, envelope_method = ''analytic''\<rparr>"]
  by simp

text \<open>
  C2 (as stated): a single run whose elapsed time between its first and its last sample
  above the threshold is exactly the minimum duration does not trigger.  The code
  measures up to the sample at which the inner loop stops, which for a run inside the
  waveform is the first sample after the run: with samples \<open>[0, 5, 5, 0]\<close> at times
  \<open>[0, 1, 2, 3]\<close>, threshold 1 and minimum duration 1, the run covers the indices 1
  and 2 (elapsed time \<open>2 - 1 = 1\<close>), the loop stops at index 3 and \<open>3 - 1 > 1\<close>.
\<close>

theorem trigger_exact_duration_counterexample:
  "trigger \<lparr>amplification = 1, amplifier_clipping = 3, trigger_threshold = 1,
            time_over_threshold = 1, envelope_method = ''analytic''\<rparr>
     \<lparr>sig_times = [0, 1, 2, 3], sig_values = [0, 5, 5, 0], sig_value_type = Voltage\<rparr>
   = Inr True"
  by (simp add: trigger_def trigger_scan.simps advance.simps)

text \<open>
  C2 (amended): for a waveform with a single run above the threshold, starting at
  index \<open>j\<close>, the measured duration is \<^verbatim>\<open>times[e] - times[j]\<close>, where \<open>e\<close> is the
  first sample after the run, or the final sample when the run reaches it.
  \<^verbatim>\<open>trigger\<close> returns true exactly when \<open>e \<noteq> j\<close> and that duration strictly exceeds
  \<^verbatim>\<open>time_over_threshold\<close>; a measured duration of exactly \<^verbatim>\<open>time_over_threshold\<close>
  gives false.
\<close>

theorem trigger_single_run:
  assumes "length (sig_times s) = length (sig_values s)"
    and "sig_values s = pre @ run @ post" and "run \<noteq> []"
    and "\<forall>x \<in> set pre. x \<le> trigger_threshold cfg"
    and "\<forall>x \<in> set run. x > trigger_threshold cfg"
    and "\<forall>x \<in> set post. x \<le> trigger_threshold cfg"
    and "j = length pre"
    and "e = min (j + length run) (length (sig_values s) - 1)"
    and "d = sig_times s ! e - sig_times s ! j"
  shows "trigger cfg s = Inr (e \<noteq> j \<and> d > time_over_threshold cfg) \<and>
         (d = time_over_threshold cfg \<longrightarrow> trigger cfg s = Inr False)"
proof -
  let ?vs = "sig_values s" and ?n = "length (sig_values s)" and ?r = "j + length run"
  have n: "?n = j + length run + length post" using assms(2,7) by simp
  have pos: "0 < length run" using assms(3) by simp
  have "trigger_scan (trigger_threshold cfg) (time_over_threshold cfg) (sig_times s) ?vs ?n 0 =
          Inr (min ?r (?n - 1) \<noteq> j \<and>
               sig_times s ! (min ?r (?n - 1)) - sig_times s ! j > time_over_threshold cfg)"
  proof (rule trigger_scan_single_run)
    show "?n \<le> length ?vs" by simp
    show "j < ?r" using pos by simp
    show "?r \<le> ?n" using n by simp
    show "\<forall>k < j. ?vs ! k \<le> trigger_threshold cfg"
      using assms(2,4,7) by (simp add: nth_append)
    show "\<forall>k. j \<le> k \<and> k < ?r \<longrightarrow> ?vs ! k > trigger_threshold cfg"
      using assms(2,5,7) by (auto simp: nth_append)
    show "\<forall>k. ?r \<le> k \<and> k < ?n \<longrightarrow> ?vs ! k \<le> trigger_threshold cfg"
      using assms(2,6,7) n by (auto simp: nth_append)
  qed
  then have "trigger cfg s = Inr (e \<noteq> j \<and> d > time_over_threshold cfg)"
    using assms(1,8,9) by (simp add: trigger_def)
  then show ?thesis by auto
qed

theorem trigger_single_run_witness:
  "trigger \<lparr>amplification = 1, amplifier_clipping = 3, trigger_threshold = 1,
            time_over_threshold = 2, envelope_method = ''analytic''\<rparr>
     \<lparr>sig_times = [0, 1, 2, 3], sig_values = [0, 5, 5, 0], sig_value_type = Voltage\<rparr>
   = Inr False"
  using trigger_single_run [of
      "\<lparr>sig_times = [0, 1, 2, 3], sig_values = [0, 5, 5, 0], sig_value_type = Voltage\<rparr>"
      "[0]" "[5, 5]" "[0]"
      "\<lparr>amplification = 1, amplifier_clipping = 3, trigger_threshold = 1,
        time_over_threshold = 2, envelope_method = ''analytic''\<rparr>"
      1 3 2]
  by simp

section \<open>Claims about the envelope detector\<close>

lemma example_config_simps [simp]:
  "envelope_method (example_config m) = m"
  "amplification (example_config m) = 1"
  "amplifier_clipping (example_config m) = 3"
  by (simp_all add: example_config_def)

lemma sublist_messages:
  "sublist m (''No envelope method matching '' @ [CHR 0x27] @ m @ [CHR 0x27])"
  "sublist m (''Circuit '' @ [CHR 0x27] @ m @ [CHR 0x27] @ '' not implemented'')"
  by (metis sublist_appendI append.assoc)+

text \<open>
  C10: a method string that contains \<^verbatim>\<open>hilbert\<close> takes the Hilbert branch and raises
  nothing, whatever else it contains; a string without \<^verbatim>\<open>hilbert\<close> that contains
  \<^verbatim>\<open>analytic\<close> takes the analytic branch (and never reaches the simulator) even when
  it contains \<^verbatim>\<open>spice\<close>.  The dispatch is by containment, in that order.
\<close>

theorem make_envelope_dispatch:
  "(sublist ''hilbert'' (envelope_method cfg) \<longrightarrow>
      make_envelope ext cfg s =
        (Inr \<lparr>sig_times = sig_times s, sig_values = signal_envelope ext s,
              sig_value_type = sig_value_type s\<rparr>, [])) \<and>
   (\<not> sublist ''hilbert'' (envelope_method cfg) \<and> sublist ''analytic'' (envelope_method cfg) \<longrightarrow>
      make_envelope ext cfg s =
        (if sublist ''basic'' (envelope_method cfg) \<or> envelope_method cfg = ''analytic''
         then (Inr (basic_envelope_model ext s), [])
         else (Inl (ValueError ''Only basic envelope circuit is modeled analytically''), [])))"
  by (simp add: make_envelope_def)

theorem make_envelope_dispatch_witness:
  "sublist ''hilbert'' ''analytic hilbert spice'' \<and>
   make_envelope example_externals (example_config ''analytic hilbert spice'') example_signal =
     (Inr \<lparr>sig_times = [0, 1, 2], sig_values = analytic_envelope example_signal,
           sig_value_type = Voltage\<rparr>, []) \<and>
   \<not> sublist ''hilbert'' ''analytic spice'' \<and> sublist ''analytic'' ''analytic spice'' \<and>
   make_envelope example_externals (example_config ''analytic spice'') example_signal =
     (Inl (ValueError ''Only basic envelope circuit is modeled analytically''), [])"
proof -
  have h: "sublist ''hilbert'' ''analytic hilbert spice''" by code_simp
  have a: "\<not> sublist ''hilbert'' ''analytic spice''" "sublist ''analytic'' ''analytic spice''"
    "\<not> sublist ''basic'' ''analytic spice''"
    by code_simp+
  from h a
    make_envelope_dispatch [of "example_config ''analytic hilbert spice''"
      example_externals example_signal]
    make_envelope_dispatch [of "example_config ''analytic spice''"
      example_externals example_signal]
  show ?thesis by (simp add: example_externals_def example_signal_def)
qed

text \<open>
  C6: with the method string exactly \<^verbatim>\<open>spice\<close>, \<^verbatim>\<open>make_envelope\<close> raises before any
  call into the simulator: the missing-module error when the simulator is absent, the
  error asking for a circuit otherwise.  In the spice branch, an absent simulator is
  reported before anything else is done.
\<close>

theorem make_envelope_spice_errors_first:
  "(envelope_method cfg = ''spice'' \<longrightarrow>
      make_envelope ext cfg s =
        (Inl (if pyspice_available ext
              then ValueError ''Type of spice circuit to use must be specified''
              else ModuleNotFoundError (pyspice_modulenotfound ext)), [])) \<and>
   (\<not> sublist ''hilbert'' (envelope_method cfg) \<and> \<not> sublist ''analytic'' (envelope_method cfg) \<and>
    sublist ''spice'' (envelope_method cfg) \<and> \<not> pyspice_available ext \<longrightarrow>
      make_envelope ext cfg s = (Inl (ModuleNotFoundError (pyspice_modulenotfound ext)), []))"
proof -
  have "\<not> sublist ''hilbert'' ''spice''" and "\<not> sublist ''analytic'' ''spice''"
    by code_simp+
  then show ?thesis by (simp add: make_envelope_def)
qed

theorem make_envelope_spice_errors_first_witness:
  "make_envelope example_externals (example_config ''spice'') example_signal =
     (Inl (ValueError ''Type of spice circuit to use must be specified''), []) \<and>
   make_envelope (example_externals\<lparr>pyspice_available := False\<rparr>)
       (example_config ''spice bridge'') example_signal =
     (Inl (ModuleNotFoundError ''PySpice was not imported''), [])"
proof -
  have a: "\<not> sublist ''hilbert'' ''spice bridge''" "\<not> sublist ''analytic'' ''spice bridge''"
    "sublist ''spice'' ''spice bridge''"
    by code_simp+
  from a
    make_envelope_spice_errors_first [of "example_config ''spice''" example_externals
      example_signal]
    make_envelope_spice_errors_first [of "example_config ''spice bridge''"
      "example_externals\<lparr>pyspice_available := False\<rparr>" example_signal]
  show ?thesis by (simp add: example_externals_def)
qed

text \<open>
  C9 (as stated): every configuration error of \<^verbatim>\<open>make_envelope\<close> names the
  \<^verbatim>\<open>envelope_method\<close> string in its message.  The error for \<^verbatim>\<open>analytic\<close> with
  another qualifier has a fixed message: for the method \<^verbatim>\<open>analytic fancy\<close> the
  message does not contain that string.
\<close>

theorem make_envelope_message_counterexample:
  "fst (make_envelope example_externals (example_config ''analytic fancy'') example_signal) =
     Inl (ValueError ''Only basic envelope circuit is modeled analytically'') \<and>
   \<not> sublist ''analytic fancy'' ''Only basic envelope circuit is modeled analytically''"
proof -
  have "\<not> sublist ''hilbert'' ''analytic fancy''" "sublist ''analytic'' ''analytic fancy''"
    "\<not> sublist ''basic'' ''analytic fancy''"
    "\<not> sublist ''analytic fancy'' ''Only basic envelope circuit is modeled analytically''"
    by code_simp+
  then show ?thesis by (simp add: make_envelope_def)
qed

text \<open>
  C9 (amended): the error for a method string matching no method and the error for a
  spice qualifier matching no circuit quote the \<^verbatim>\<open>envelope_method\<close> string in their
  message.  The error for \<^verbatim>\<open>analytic\<close> with an unsupported qualifier and the error
  for an unqualified \<^verbatim>\<open>spice\<close> carry fixed messages, and the missing-dependency
  error carries the message supplied by the \<^verbatim>\<open>pyspice\<close> module.
\<close>

theorem make_envelope_messages:
  fixes cfg :: "'a irex_config_scheme" and ext :: "('c, 'n) externals" and s :: signal
  defines "m \<equiv> envelope_method cfg"
  defines "r \<equiv> fst (make_envelope ext cfg s)"
  shows
  "(\<not> sublist ''hilbert'' m \<and> \<not> sublist ''analytic'' m \<and> \<not> sublist ''spice'' m \<longrightarrow>
      r = Inl (ValueError (''No envelope method matching '' @ [CHR 0x27] @ m @ [CHR 0x27])) \<and>
      sublist m (''No envelope method matching '' @ [CHR 0x27] @ m @ [CHR 0x27])) \<and>
   (\<not> sublist ''hilbert'' m \<and> \<not> sublist ''analytic'' m \<and> sublist ''spice'' m \<and>
    pyspice_available ext \<and> m \<noteq> ''spice'' \<and> sig_times s \<noteq> [] \<and>
    match_circuit (spice_circuits ext) m = Inr None \<longrightarrow>
      r = Inl (ValueError (''Circuit '' @ [CHR 0x27] @ m @ [CHR 0x27] @ '' not implemented'')) \<and>
      sublist m (''Circuit '' @ [CHR 0x27] @ m @ [CHR 0x27] @ '' not implemented'')) \<and>
   (\<not> sublist ''hilbert'' m \<and> sublist ''analytic'' m \<and> \<not> sublist ''basic'' m \<and>
    m \<noteq> ''analytic'' \<longrightarrow>
      r = Inl (ValueError ''Only basic envelope circuit is modeled analytically'')) \<and>
   (m = ''spice'' \<and> pyspice_available ext \<longrightarrow>
      r = Inl (ValueError ''Type of spice circuit to use must be specified'')) \<and>
   (\<not> sublist ''hilbert'' m \<and> \<not> sublist ''analytic'' m \<and> sublist ''spice'' m \<and>
    \<not> pyspice_available ext \<longrightarrow>
      r = Inl (ModuleNotFoundError (pyspice_modulenotfound ext)))"
proof -
  have no: "\<not> sublist ''hilbert'' ''spice''" "\<not> sublist ''analytic'' ''spice''"
    by code_simp+
  have c1: "\<not> sublist ''hilbert'' m \<and> \<not> sublist ''analytic'' m \<and> \<not> sublist ''spice'' m \<longrightarrow>
      r = Inl (ValueError (''No envelope method matching '' @ [CHR 0x27] @ m @ [CHR 0x27]))"
    by (simp add: r_def m_def make_envelope_def)
  have c2: "\<not> sublist ''hilbert'' m \<and> \<not> sublist ''analytic'' m \<and> sublist ''spice'' m \<and>
    pyspice_available ext \<and> m \<noteq> ''spice'' \<and> sig_times s \<noteq> [] \<and>
    match_circuit (spice_circuits ext) m = Inr None \<longrightarrow>
      r = Inl (ValueError (''Circuit '' @ [CHR 0x27] @ m @ [CHR 0x27] @ '' not implemented''))"
    by (cases "sig_times s") (simp_all add: r_def m_def make_envelope_def Let_def)
  have c3: "\<not> sublist ''hilbert'' m \<and> sublist ''analytic'' m \<and> \<not> sublist ''basic'' m \<and>
    m \<noteq> ''analytic'' \<longrightarrow>
      r = Inl (ValueError ''Only basic envelope circuit is modeled analytically'')"
    by (simp add: r_def m_def make_envelope_def)
  have c4: "m = ''spice'' \<and> pyspice_available ext \<longrightarrow>
      r = Inl (ValueError ''Type of spice circuit to use must be specified'')"
    using no by (simp add: r_def m_def make_envelope_def)
  have c5: "\<not> sublist ''hilbert'' m \<and> \<not> sublist ''analytic'' m \<and> sublist ''spice'' m \<and>
    \<not> pyspice_available ext \<longrightarrow>
      r = Inl (ModuleNotFoundError (pyspice_modulenotfound ext))"
    by (simp add: r_def m_def make_envelope_def)
  from c1 c2 c3 c4 c5 sublist_messages [of m] show ?thesis by blast
qed

theorem make_envelope_messages_witness:
  "fst (make_envelope example_externals (example_config ''bogus'') example_signal) =
     Inl (ValueError (''No envelope method matching '' @ [CHR 0x27] @ ''bogus'' @ [CHR 0x27])) \<and>
   sublist ''bogus'' (''No envelope method matching '' @ [CHR 0x27] @ ''bogus'' @ [CHR 0x27]) \<and>
   fst (make_envelope example_externals (example_config ''spice diode'') example_signal) =
     Inl (ValueError (''Circuit '' @ [CHR 0x27] @ ''spice diode'' @ [CHR 0x27]
                        @ '' not implemented''))"
proof -
  have a: "\<not> sublist ''hilbert'' ''bogus''" "\<not> sublist ''analytic'' ''bogus''"
    "\<not> sublist ''spice'' ''bogus''"
    "\<not> sublist ''hilbert'' ''spice diode''" "\<not> sublist ''analytic'' ''spice diode''"
    "sublist ''spice'' ''spice diode''"
    by code_simp+
  have "match_circuit [(''basic'', 0::nat), (''logamp'', 1), (''bridge'', 2)] ''spice diode''
          = Inr None"
    by code_simp
  then have b: "match_circuit (spice_circuits example_externals) ''spice diode'' = Inr None"
    by (simp add: example_externals_def)
  have c: "pyspice_available example_externals" "sig_times example_signal \<noteq> []"
    by (simp_all add: example_externals_def example_signal_def)
  from a b c
    make_envelope_messages [of "example_config ''bogus''" example_externals example_signal]
    make_envelope_messages [of "example_config ''spice diode''" example_externals
      example_signal]
  show ?thesis by simp
qed

section \<open>Claims about the front end\<close>

lemma clip_bounds:
  assumes "0 \<le> c"
  shows "- c \<le> clip a (- c) c" and "clip a (- c) c \<le> c"
  using assms by (simp_all add: clip_def min_def max_def)

lemma front_end_hilbert:
  assumes "sublist ''hilbert'' (envelope_method cfg)"
  shows "front_end ext cfg s =
           (Inr \<lparr>sig_times = sig_times s,
                 sig_values = signal_envelope ext
                                (Signal ext (sig_times s) (amplified_values cfg s)),
                 sig_value_type = signal_default_type ext\<rparr>, [])"
  using assms by (simp add: front_end_def make_envelope_def Signal_def)

lemma upt_4: "[0..<4] = [0, Suc 0, Suc (Suc 0), 3]"
  by (simp add: upt_rec)

lemma analytic_signal_example:
  "analytic_signal [1, 1, 0, 0] 0 = Complex 1 (- 1 / 2)"
proof -
  have d0: "dft [1, 1, 0, 0] 0 = 2"
    by (simp add: dft_def upt_4)
  have d1: "dft [1, 1, 0, 0] (Suc 0) = 1 - \<i>"
    by (simp add: dft_def upt_4 cis_minus_pi_half)
  have d2: "dft [1, 1, 0, 0] (Suc (Suc 0)) = 0"
    by (simp add: dft_def upt_4 flip: cis_cnj)
  show ?thesis
    by (simp add: analytic_signal_def upt_4 d0 d1 d2 one_sided_def complex_eq_iff)
qed

lemma analytic_envelope_example:
  "analytic_envelope \<lparr>sig_times = ts, sig_values = [1, 1, 0, 0], sig_value_type = ty\<rparr> ! 0
     = sqrt 5 / 2"
proof -
  have "cmod (Complex 1 (- 1 / 2)) = sqrt (5 / 4)"
    by (simp add: cmod_def power2_eq_square)
  also have "\<dots> = sqrt 5 / 2"
    by (simp add: real_sqrt_divide)
  finally show ?thesis
    by (simp add: analytic_envelope_def upt_4 analytic_signal_example)
qed

lemma analytic_envelope_single:
  "analytic_envelope \<lparr>sig_times = ts, sig_values = [v], sig_value_type = ty\<rparr> = [\<bar>v\<bar>]"
  by (simp add: analytic_envelope_def analytic_signal_def dft_def one_sided_def)

text \<open>
  C3 (as stated): every sample of the waveform returned by \<^verbatim>\<open>front_end\<close> lies in
  \<open>[-c, c]\<close>.  The front end clips first and takes the envelope afterwards, and the
  envelope is not clipped.  With gain 1, clip bound 1 and the Hilbert method, the
  samples \<open>[1, 1, 0, 0]\<close> pass the clip unchanged and the first sample of their
  envelope is \<open>sqrt 5 / 2 > 1\<close>.  With the clip bound \<open>-1\<close> the interval is empty:
  the single sample 0 is clipped to \<open>-1\<close> and its envelope is \<open>1 > -1\<close>.
\<close>

theorem front_end_bound_counterexample:
  "fst (front_end example_externals
          \<lparr>amplification = 1, amplifier_clipping = 1, trigger_threshold = 1,
           time_over_threshold = 0, envelope_method = ''hilbert''\<rparr>
          \<lparr>sig_times = [0, 1, 2, 3], sig_values = [1, 1, 0, 0], sig_value_type = Voltage\<rparr>)
     = Inr \<lparr>sig_times = [0, 1, 2, 3],
            sig_values = analytic_envelope
              \<lparr>sig_times = [0, 1, 2, 3], sig_values = [1, 1, 0, 0], sig_value_type = Undefined\<rparr>,
            sig_value_type = Undefined\<rparr> \<and>
   analytic_envelope
     \<lparr>sig_times = [0, 1, 2, 3], sig_values = [1, 1, 0, 0], sig_value_type = Undefined\<rparr> ! 0 > 1 \<and>
   fst (front_end example_externals
          \<lparr>amplification = 1, amplifier_clipping = - 1, trigger_threshold = 1,
           time_over_threshold = 0, envelope_method = ''hilbert''\<rparr>
          \<lparr>sig_times = [0], sig_values = [0], sig_value_type = Voltage\<rparr>)
     = Inr \<lparr>sig_times = [0], sig_values = [1], sig_value_type = Undefined\<rparr> \<and>
   (1::real) > - 1"
proof -
  have h: "sublist ''hilbert'' ''hilbert''" by simp
  have "sqrt 5 / 2 > 1"
    by (simp add: real_less_rsqrt)
  then show ?thesis
    using h
    by (simp add: front_end_hilbert analytic_envelope_example analytic_envelope_single
        example_externals_def Signal_def amplified_values_def clip_def)
qed

text \<open>
  C3 (amended): for every gain \<open>g\<close>, clip bound \<open>c \<ge> 0\<close> and input signal, every
  amplified sample that \<^verbatim>\<open>front_end\<close> hands to the envelope detector lies in
  \<open>[-c, c]\<close>, on the time axis of the input; what \<^verbatim>\<open>front_end\<close> returns is the
  result of \<^verbatim>\<open>make_envelope\<close> on that clipped signal, with no clipping applied after
  the envelope detector.
\<close>

theorem front_end_clips_before_envelope:
  assumes "0 \<le> amplifier_clipping cfg"
  shows "front_end ext cfg s =
           make_envelope ext cfg
             \<lparr>sig_times = sig_times s, sig_values = amplified_values cfg s,
              sig_value_type = signal_default_type ext\<rparr> \<and>
         length (amplified_values cfg s) = length (sig_values s) \<and>
         (\<forall>v \<in> set (amplified_values cfg s).
            - amplifier_clipping cfg \<le> v \<and> v \<le> amplifier_clipping cfg)"
  using assms
  by (auto simp: front_end_def Signal_def amplified_values_def clip_bounds)

theorem front_end_clips_before_envelope_witness:
  "0 \<le> amplifier_clipping (example_config ''analytic'') \<and>
   amplified_values (example_config ''analytic'') example_signal = [0, 3, - 1] \<and>
   length (amplified_values (example_config ''analytic'') example_signal) =
     length (sig_values example_signal)"
  using front_end_clips_before_envelope [of "example_config ''analytic''" example_externals
      example_signal]
  by (simp add: amplified_values_def example_signal_def clip_def)

text \<open>
  C8: the waveform returned by \<^verbatim>\<open>front_end\<close> has the time axis of the input and its
  value-type tag.  \<^verbatim>\<open>make_envelope\<close> copies the tag of the signal it is given, but
  \<^verbatim>\<open>front_end\<close> gives it a copy built by \<^verbatim>\<open>Signal(signal.times, amplified_values)\<close>,
  without the tag of the input: a voltage signal comes back with the tag of an untagged
  signal.
\<close>

theorem front_end_drops_value_type:
  "fst (front_end example_externals (example_config ''hilbert'')
          \<lparr>sig_times = [0, 1], sig_values = [0, 1], sig_value_type = Voltage\<rparr>)
     = Inr \<lparr>sig_times = [0, 1],
            sig_values = analytic_envelope
              \<lparr>sig_times = [0, 1], sig_values = [0, 1], sig_value_type = Undefined\<rparr>,
            sig_value_type = Undefined\<rparr>"
proof -
  have h: "sublist ''hilbert'' ''hilbert''" by simp
  then show ?thesis
    by (simp add: front_end_hilbert example_externals_def Signal_def amplified_values_def
        clip_def)
qed

section \<open>Claims about the event kernel\<close>

lemma vdot_simps [simp]:
  "vdot [] b = 0" "vdot a [] = 0" "vdot (x # a) (y # b) = x * y + vdot a b"
  by (simp_all add: vdot_def)

lemma vdot_commute: "vdot a b = vdot b a"
proof (induction a arbitrary: b)
  case Nil
  show ?case by simp
next
  case (Cons x a)
  then show ?case by (cases b) simp_all
qed

lemma vdot_scale: "vdot (map (\<lambda>x. c * x) a) b = c * vdot a b"
proof (induction a arbitrary: b)
  case Nil
  show ?case by simp
next
  case (Cons x a)
  then show ?case by (cases b) (simp_all add: algebra_simps)
qed

lemma vdot_divide: "vdot (map (\<lambda>x. x / m) a) b = vdot a b / m"
proof (induction a arbitrary: b)
  case Nil
  show ?case by simp
next
  case (Cons x a)
  then show ?case by (cases b) (simp_all add: add_divide_distrib)
qed

lemma vdot_diff:
  "length a = length b \<Longrightarrow> vdot (map2 (-) a b) k = vdot a k - vdot b k"
proof (induction a b arbitrary: k rule: list_induct2)
  case Nil
  show ?case by simp
next
  case (Cons x a y b)
  then show ?case by (cases k) (simp_all add: algebra_simps)
qed

lemma sum_squares_vdot: "(\<Sum>x\<leftarrow>v. x\<^sup>2) = vdot v v"
  by (induction v) (simp_all add: power2_eq_square)

lemma unit_vdot: "linalg_norm v = 1 \<Longrightarrow> vdot v v = 1"
  by (simp add: linalg_norm_def sum_squares_vdot)

lemma map2_minus_self: "map2 (-) k k = replicate (length k) (0::real)"
  by (induction k) simp_all

lemma linalg_norm_zeros: "linalg_norm (replicate n 0) = 0"
  by (induction n) (simp_all add: linalg_norm_def)

lemma vdot_normalize: "vdot v k = 0 \<Longrightarrow> vdot (normalize v) k = 0"
  by (simp add: normalize_def Let_def vdot_divide)

text \<open>
  For vectors whose Euclidean norm is exactly 1 over the reals, the polarization
  \<^verbatim>\<open>normalize((k . d) * k - d)\<close> is the zero vector when \<open>k = d\<close> and has zero dot
  product with \<open>k\<close> otherwise.
\<close>

lemma polarization_orthogonal_exact:
  assumes "linalg_norm k = 1" and "linalg_norm d = 1" and "length k = length d"
  shows "(k = d \<longrightarrow> polarization k d = replicate (length k) 0) \<and>
         (k \<noteq> d \<longrightarrow> vdot (polarization k d) k = 0)"
proof -
  have "vdot (map2 (-) (map (\<lambda>x. vdot k d * x) k) d) k = vdot k d * vdot k k - vdot d k"
    using assms(3) by (simp add: vdot_diff vdot_scale)
  also have "\<dots> = 0"
    using unit_vdot [OF assms(1)] by (simp add: vdot_commute)
  finally have orth: "vdot (polarization k d) k = 0"
    unfolding polarization_def by (rule vdot_normalize)
  have "polarization k k = replicate (length k) 0"
    using unit_vdot [OF assms(1)]
    by (simp add: polarization_def map2_minus_self normalize_def linalg_norm_zeros)
  with orth show ?thesis by auto
qed

lemma polarization_orthogonal_exact_example:
  "linalg_norm [1, 0, 0] = 1 \<and> linalg_norm [0, 1, 0] = 1 \<and>
   polarization [1, 0, 0] [0, 1, 0] = [0, - 1, 0] \<and>
   vdot (polarization [1, 0, 0] [0, 1, 0]) [1, 0, 0] = 0 \<and>
   polarization [0, 0, 1] [0, 0, 1] = [0, 0, 0]"
proof -
  have n: "linalg_norm [1, 0, 0] = 1" "linalg_norm [0, 1, 0] = 1" "linalg_norm [0, 0, 1] = 1"
    by (simp_all add: linalg_norm_def)
  have p: "polarization [1, 0, 0] [0, 1, 0] = [0, - 1, 0]"
    by (simp add: polarization_def normalize_def linalg_norm_def)
  from n p polarization_orthogonal_exact [of "[1, 0, 0]" "[0, 1, 0]"]
    polarization_orthogonal_exact [of "[0, 0, 1]" "[0, 0, 1]"]
  show ?thesis by (simp add: numeral_3_eq_3)
qed

text \<open>
  When \<open>k = d\<close> and \<open>k . k\<close> is not exactly 1, the difference \<open>(k . k) * k - k\<close> is a
  non-zero multiple of \<open>k\<close>, and \<^verbatim>\<open>normalize\<close> scales it to length 1.
\<close>

lemma polarization_diagonal:
  assumes "0 < a" and "1 < 3 * a\<^sup>2"
  shows "polarization [a, a, a] [a, a, a] = [1 / sqrt 3, 1 / sqrt 3, 1 / sqrt 3]"
proof -
  define t where "t = 3 * a\<^sup>2 * a - a"
  have "t = a * (3 * a\<^sup>2 - 1)" by (simp add: t_def algebra_simps)
  with assms have t: "0 < t" by simp
  have v: "map2 (-) (map (\<lambda>x. vdot [a, a, a] [a, a, a] * x) [a, a, a]) [a, a, a] = [t, t, t]"
    by (simp add: t_def power2_eq_square algebra_simps)
  have "linalg_norm [t, t, t] = sqrt (3 * t\<^sup>2)"
    by (simp add: linalg_norm_def)
  also have "\<dots> = sqrt 3 * t"
    using t by (simp add: real_sqrt_mult)
  finally have n: "linalg_norm [t, t, t] = sqrt 3 * t" .
  have "normalize [t, t, t] = [1 / sqrt 3, 1 / sqrt 3, 1 / sqrt 3]"
    using t by (simp add: normalize_def n)
  then show ?thesis by (simp only: polarization_def v)
qed

text \<open>
  C4: for unit vectors \<open>k\<close> (received ray) and \<open>d\<close> (shower direction), the
  polarization computed by \<^verbatim>\<open>event\<close> is the zero vector when \<open>k = d\<close>, as the
  comment in \<^verbatim>\<open>event\<close> says ("just let epol be all zeros"), and otherwise
  orthogonal to \<open>k\<close>.  The unit vectors the kernel receives are arrays of doubles,
  and the zero case needs \<open>k . k\<close> to be exactly 1.  For \<open>k = d\<close> the normalized
  diagonal \<^verbatim>\<open>normalize((1, 1, 1))\<close>, whose computed norm is \<^verbatim>\<open>1.0\<close>, three times
  the square of the coordinate exceeds 1 (by more than half a unit in the last place,
  so \<^verbatim>\<open>np.vdot\<close> gives \<^verbatim>\<open>1.0000000000000002\<close>), and the polarization is the
  unit vector along \<open>k\<close>, not the zero vector.
\<close>

theorem polarization_diagonal_not_zero:
  "polarization [diagonal_double, diagonal_double, diagonal_double]
     [diagonal_double, diagonal_double, diagonal_double]
   = [1 / sqrt 3, 1 / sqrt 3, 1 / sqrt 3]"
proof (rule polarization_diagonal)
  show "0 < diagonal_double" by (simp add: diagonal_double_def)
  show "1 < 3 * diagonal_double\<^sup>2" by (simp add: diagonal_double_def power2_eq_square)
qed

lemma arccos_obtuse:
  assumes "- 1 \<le> x" and "x \<le> 1"
  shows "arccos x > pi / 2 \<longleftrightarrow> x < 0"
proof -
  have "arccos 0 < arccos x \<longleftrightarrow> x < 0"
    using assms by (intro arccos_less_mono) auto
  then show ?thesis by (simp only: arccos_0)
qed

lemma event_path_absent:
  "\<not> path_exists pth \<Longrightarrow> event_path ext p n acc pth = acc"
  by (simp add: event_path_def)

text \<open>
  C5: a path that exists and whose emission angle
  \<^verbatim>\<open>arccos(shower_direction . emitted_ray)\<close> exceeds \<open>pi / 2\<close> is skipped by
  \<^verbatim>\<open>event\<close>: the antenna is left as it was and no call is made for that path (no
  pulse is built, nothing is propagated, nothing is received).  The angle is that of a
  dot product in \<open>[-1, 1]\<close>, as it is for unit vectors; it exceeds \<open>pi / 2\<close>
  exactly when the dot product is negative.
\<close>

theorem event_path_skips_obtuse:
  assumes "path_exists pth"
    and "- 1 \<le> vdot (direction p) (emitted_ray pth)"
    and "vdot (direction p) (emitted_ray pth) \<le> 1"
    and "arccos (vdot (direction p) (emitted_ray pth)) > pi / 2"
  shows "event_path ext p n (ant, calls) pth = (ant, calls) \<and>
         vdot (direction p) (emitted_ray pth) < 0"
proof -
  have "vdot (direction p) (emitted_ray pth) < 0"
    using arccos_obtuse [OF assms(2,3)] assms(4) by blast
  moreover have "event_path ext p n (ant, calls) pth = (ant, calls)"
    using assms(1,4) by (simp add: event_path_def Let_def)
  ultimately show ?thesis by simp
qed

theorem event_path_skips_obtuse_witness:
  "path_exists (PathFinder example_kernel [0, 0, - 200] [0, 0, - 300]) \<and>
   arccos (vdot (direction example_particle)
             (emitted_ray (PathFinder example_kernel [0, 0, - 200] [0, 0, - 300]))) = pi \<and>
   event_path example_kernel example_particle (178 / 100) ([], [])
       (PathFinder example_kernel [0, 0, - 200] [0, 0, - 300]) = ([], []) \<and>
   event example_kernel example_particle [[]] = Inr (example_particle, [([], [])])"
proof -
  let ?pf = "PathFinder example_kernel [0, 0, - 200] [0, 0, - 300]"
  have e: "path_exists ?pf" by (simp add: example_kernel_def)
  have a: "arccos (vdot (direction example_particle) (emitted_ray ?pf)) = pi"
    by (simp add: example_kernel_def example_particle_def)
  have r: "\<not> path_exists (ReflectedPathFinder example_kernel [0, 0, - 200] [0, 0, - 300])"
    by (simp add: example_kernel_def)
  have d: "vdot (direction example_particle) (emitted_ray ?pf) = - 1"
    by (simp add: example_kernel_def example_particle_def)
  have s: "event_path example_kernel example_particle (178 / 100) ([], []) ?pf = ([], [])"
    using event_path_skips_obtuse [of ?pf example_particle example_kernel "178 / 100" "[]" "[]"]
      e a d by simp
  have v: "vertex example_particle = [0, 0, - 200]"
    "ant_position example_kernel [] = [0, 0, - 300]"
    by (simp_all add: example_particle_def example_kernel_def)
  have "event_antenna example_kernel example_particle (178 / 100) [] = ([], [])"
    using s by (simp add: event_antenna_def v event_path_absent [OF r])
  then have "event example_kernel example_particle [[]] = Inr (example_particle, [([], [])])"
    by (simp add: event_def example_particle_def example_kernel_def)
  with e a s show ?thesis by simp
qed

section \<open>Claims about the waveform cache\<close>

lemma process_all_length:
  "process_all ext cfg n ss = (ws, r, n') \<Longrightarrow>
     length ws \<le> length ss \<and> (r = None \<longrightarrow> length ws = length ss)"
proof (induction ss arbitrary: n ws r n')
  case Nil
  then show ?case by simp
next
  case (Cons s ss)
  show ?case
  proof (cases "process_signal ext cfg n s")
    case (Pair res m)
    show ?thesis
    proof (cases res)
      case (Inl err)
      with Pair Cons.prems show ?thesis by auto
    next
      case (Inr w)
      obtain ws' r' m' where rest: "process_all ext cfg m ss = (ws', r', m')"
        by (cases "process_all ext cfg m ss") auto
      with Pair Inr Cons.prems have "ws = w # ws'" "r = r'" by auto
      with Cons.IH [OF rest] show ?thesis by simp
    qed
  qed
qed

lemma process_all_aligned:
  "process_all ext cfg n ss = (ws, r, n') \<Longrightarrow>
     list_all2 (\<lambda>w s. \<exists>m. fst (process_signal ext cfg m s) = Inr w) ws (take (length ws) ss)"
proof (induction ss arbitrary: n ws r n')
  case Nil
  then show ?case by simp
next
  case (Cons s ss)
  show ?case
  proof (cases "process_signal ext cfg n s")
    case (Pair res m)
    show ?thesis
    proof (cases res)
      case (Inl err)
      with Pair Cons.prems show ?thesis by auto
    next
      case (Inr w)
      obtain ws' r' m' where rest: "process_all ext cfg m ss = (ws', r', m')"
        by (cases "process_all ext cfg m ss") auto
      with Pair Inr Cons.prems have ws: "ws = w # ws'" by auto
      have "fst (process_signal ext cfg n s) = Inr w" using Pair Inr by simp
      then have "\<exists>m. fst (process_signal ext cfg m s) = Inr w" ..
      with Cons.IH [OF rest] ws show ?thesis by simp
    qed
  qed
qed

lemma all_waveforms_loop_process_all:
  assumes "length (waveform_cache st) \<le> length (signals st)"
  shows "all_waveforms_loop ext cfg st =
           (case process_all ext cfg (noise_state st)
                   (drop (length (waveform_cache st)) (signals st)) of
              (ws, r, n') \<Rightarrow>
                (r, st\<lparr>waveform_cache := waveform_cache st @ ws, noise_state := n'\<rparr>))"
  using assms
proof (induction "length (signals st) - length (waveform_cache st)" arbitrary: st)
  case 0
  then have "drop (length (waveform_cache st)) (signals st) = []" by simp
  moreover have "\<not> length (waveform_cache st) < length (signals st)" using 0 by simp
  ultimately show ?case
    by (simp add: all_waveforms_loop.simps [of ext cfg st])
next
  case (Suc d)
  let ?c = "waveform_cache st" and ?s = "signals st"
  have lt: "length ?c < length ?s" using Suc.hyps(2) by simp
  then have dr: "drop (length ?c) ?s = ?s ! length ?c # drop (Suc (length ?c)) ?s"
    by (simp add: Cons_nth_drop_Suc)
  show ?case
  proof (cases "process_signal ext cfg (noise_state st) (?s ! length ?c)")
    case (Pair res m)
    show ?thesis
    proof (cases res)
      case (Inl err)
      with Pair lt dr show ?thesis
        by (simp add: all_waveforms_loop.simps [of ext cfg st])
    next
      case (Inr w)
      let ?st = "st\<lparr>waveform_cache := ?c @ [w], noise_state := m\<rparr>"
      have "all_waveforms_loop ext cfg ?st =
              (case process_all ext cfg (noise_state ?st)
                      (drop (length (waveform_cache ?st)) (signals ?st)) of
                 (ws, r, n') \<Rightarrow>
                   (r, ?st\<lparr>waveform_cache := waveform_cache ?st @ ws, noise_state := n'\<rparr>))"
      proof (rule Suc.hyps(1))
        show "d = length (signals ?st) - length (waveform_cache ?st)"
          using Suc.hyps(2) by simp
        show "length (waveform_cache ?st) \<le> length (signals ?st)"
          using lt by simp
      qed
      with Pair Inr lt dr show ?thesis
        by (simp add: all_waveforms_loop.simps [of ext cfg st] split: prod.splits)
    qed
  qed
qed


lemma all_waveforms_step:
  assumes le: "length (waveform_cache st) \<le> length (signals st)"
    and acc: "all_waveforms ext cfg st = (res, st')"
  defines "ws \<equiv> fst (process_all ext cfg (noise_state st)
                        (drop (length (waveform_cache st)) (signals st)))"
  shows "signals st' = signals st"
    and "waveform_cache st' = waveform_cache st @ ws"
    and "length (waveform_cache st') \<le> length (signals st')"
    and "list_all2 (\<lambda>w s. \<exists>m. fst (process_signal ext cfg m s) = Inr w) ws
           (take (length ws) (drop (length (waveform_cache st)) (signals st)))"
    and "res = Inr vs \<Longrightarrow>
           vs = waveform_cache st' \<and> length (waveform_cache st') = length (signals st')"
proof -
  obtain ws' r n' where pa:
    "process_all ext cfg (noise_state st) (drop (length (waveform_cache st)) (signals st))
       = (ws', r, n')"
    by (cases "process_all ext cfg (noise_state st)
                 (drop (length (waveform_cache st)) (signals st))") auto
  then have ws: "ws = ws'" by (simp add: ws_def)
  have loop: "all_waveforms_loop ext cfg st =
                (r, st\<lparr>waveform_cache := waveform_cache st @ ws', noise_state := n'\<rparr>)"
    using all_waveforms_loop_process_all [OF le, of ext cfg] pa by simp
  have st': "st' = st\<lparr>waveform_cache := waveform_cache st @ ws', noise_state := n'\<rparr>"
    using acc loop by (cases r) (auto simp: all_waveforms_def)
  have res: "res = (case r of Some err \<Rightarrow> Inl err | None \<Rightarrow> Inr (waveform_cache st'))"
    using acc loop by (cases r) (auto simp: all_waveforms_def)
  have len: "length ws' \<le> length (signals st) - length (waveform_cache st)"
    "r = None \<longrightarrow> length ws' = length (signals st) - length (waveform_cache st)"
    using process_all_length [OF pa] by simp_all
  show "signals st' = signals st" by (simp add: st')
  show "waveform_cache st' = waveform_cache st @ ws" by (simp add: st' ws)
  show "length (waveform_cache st') \<le> length (signals st')"
    using len(1) le by (simp add: st')
  show "list_all2 (\<lambda>w s. \<exists>m. fst (process_signal ext cfg m s) = Inr w) ws
          (take (length ws) (drop (length (waveform_cache st)) (signals st)))"
    using process_all_aligned [OF pa] by (simp add: ws)
  show "vs = waveform_cache st' \<and> length (waveform_cache st') = length (signals st')"
    if "res = Inr vs"
  proof -
    from that res have "r = None" and "vs = waveform_cache st'"
      by (cases r; simp)+
    with len(2) le show ?thesis by (simp add: st')
  qed
qed

lemma all_waveforms_complete:
  assumes "length (waveform_cache st) = length (signals st)"
  shows "all_waveforms ext cfg st = (Inr (waveform_cache st), st)"
  using assms by (simp add: all_waveforms_def all_waveforms_loop.simps [of ext cfg st])

lemma reachable_invariant:
  assumes "reachable ext cfg st"
  shows "length (waveform_cache st) \<le> length (signals st) \<and>
         list_all2 (\<lambda>w s. \<exists>m. fst (process_signal ext cfg m s) = Inr w)
           (waveform_cache st) (take (length (waveform_cache st)) (signals st))"
  using assms
proof (induction rule: reachable.induct)
  case (created n0)
  show ?case by simp
next
  case (received st s)
  then show ?case by (simp add: receive_def)
next
  case (accessed st)
  let ?st' = "snd (all_waveforms ext cfg st)"
  let ?ws = "fst (process_all ext cfg (noise_state st)
                    (drop (length (waveform_cache st)) (signals st)))"
  have acc: "all_waveforms ext cfg st = (fst (all_waveforms ext cfg st), ?st')" by simp
  from accessed.IH have le: "length (waveform_cache st) \<le> length (signals st)" ..
  note step = all_waveforms_step [OF le acc]
  have "take (length (waveform_cache st) + length ?ws) (signals st) =
          take (length (waveform_cache st)) (signals st) @
          take (length ?ws) (drop (length (waveform_cache st)) (signals st))"
    by (simp add: take_add)
  with accessed.IH step(4) have
    "list_all2 (\<lambda>w s. \<exists>m. fst (process_signal ext cfg m s) = Inr w)
       (waveform_cache st @ ?ws)
       (take (length (waveform_cache st) + length ?ws) (signals st))"
    by (simp add: list_all2_appendI)
  with step(1,2,3) show ?case by simp
qed

lemma process_signal_hilbert:
  assumes "sublist ''hilbert'' (envelope_method cfg)" and "sig_times s \<noteq> []"
  shows "\<exists>w n'. process_signal ext cfg n s = (Inr w, n')"
proof -
  obtain t0 rest where t: "sig_times s = t0 # rest"
    using assms(2) by (cases "sig_times s") auto
  show ?thesis
    using assms(1)
    by (simp add: process_signal_def long_times_def t front_end_hilbert Let_def
        split: prod.splits)
qed

lemma process_all_hilbert:
  assumes "sublist ''hilbert'' (envelope_method cfg)"
    and "\<forall>s \<in> set ss. sig_times s \<noteq> []"
  shows "fst (snd (process_all ext cfg n ss)) = None"
  using assms(2)
proof (induction ss arbitrary: n)
  case Nil
  show ?case by simp
next
  case (Cons s ss)
  then have "sig_times s \<noteq> []" by simp
  from process_signal_hilbert [OF assms(1) this, of ext n]
  obtain w n' where "process_signal ext cfg n s = (Inr w, n')" by blast
  moreover have "fst (snd (process_all ext cfg n' ss)) = None"
    using Cons by simp
  ultimately show ?case by (auto split: prod.splits)
qed

lemma all_waveforms_returns:
  assumes "length (waveform_cache st) \<le> length (signals st)"
    and "sublist ''hilbert'' (envelope_method cfg)"
    and "\<forall>s \<in> set (signals st). sig_times s \<noteq> []"
  shows "\<exists>ws. fst (all_waveforms ext cfg st) = Inr ws"
proof -
  have "\<forall>s \<in> set (drop (length (waveform_cache st)) (signals st)). sig_times s \<noteq> []"
    using assms(3) by (meson in_set_dropD)
  from process_all_hilbert [OF assms(2) this]
  have "fst (snd (process_all ext cfg (noise_state st)
                    (drop (length (waveform_cache st)) (signals st)))) = None" .
  then obtain ws n' where
    "process_all ext cfg (noise_state st) (drop (length (waveform_cache st)) (signals st))
       = (ws, None, n')"
    by (cases "process_all ext cfg (noise_state st)
                 (drop (length (waveform_cache st)) (signals st))") auto
  then show ?thesis
    by (simp add: all_waveforms_def all_waveforms_loop_process_all [OF assms(1)])
qed

text \<open>
  C7 (as stated): an \<^verbatim>\<open>all_waveforms\<close> access brings the length of the cache to
  the length of the raw-signal list.  An access that raises does not: with a method
  string matching no envelope method and one raw signal received, the access raises the
  configuration error of \<^verbatim>\<open>make_envelope\<close> and the cache stays empty (the noise has
  been drawn).
\<close>

theorem waveform_cache_error_counterexample:
  "reachable example_externals (example_config ''bogus'')
     (receive \<lparr>signals = [], waveform_cache = [], noise_state = 0\<rparr> example_signal) \<and>
   all_waveforms example_externals (example_config ''bogus'')
     (receive \<lparr>signals = [], waveform_cache = [], noise_state = 0\<rparr> example_signal) =
     (Inl (ValueError (''No envelope method matching '' @ [CHR 0x27] @ ''bogus'' @ [CHR 0x27])),
      \<lparr>signals = [example_signal], waveform_cache = [], noise_state = 1\<rparr>)"
proof -
  have a: "\<not> sublist ''hilbert'' ''bogus''" "\<not> sublist ''analytic'' ''bogus''"
    "\<not> sublist ''spice'' ''bogus''"
    by code_simp+
  have "reachable example_externals (example_config ''bogus'')
     (receive \<lparr>signals = [], waveform_cache = [], noise_state = 0\<rparr> example_signal)"
    by (intro reachable.intros)
  moreover have "all_waveforms example_externals (example_config ''bogus'')
     (receive \<lparr>signals = [], waveform_cache = [], noise_state = 0\<rparr> example_signal) =
     (Inl (ValueError (''No envelope method matching '' @ [CHR 0x27] @ ''bogus'' @ [CHR 0x27])),
      \<lparr>signals = [example_signal], waveform_cache = [], noise_state = 1\<rparr>)"
    using a
    by (simp add: all_waveforms_def all_waveforms_loop.simps receive_def process_signal_def
        long_times_def front_end_def make_envelope_def example_signal_def
        example_externals_def)
  ultimately show ?thesis by simp
qed

text \<open>
  C7 (amended): in every state of an antenna system (after any sequence of
  \<^verbatim>\<open>receive\<close> calls and \<^verbatim>\<open>all_waveforms\<close> accesses, returning or raising) the
  cache is at most as long as the raw-signal list and its \<open>i\<close>-th entry is the
  processed waveform of the \<open>i\<close>-th raw signal.  An access leaves the raw signals
  alone and appends to the cache the waveforms of the raw signals not yet processed,
  in arrival order, up to the first exception.  An access that returns brings the two
  lengths to equality and returns the cache; a second access then changes nothing and
  returns the same stored waveforms.  (With a method string containing \<^verbatim>\<open>hilbert\<close>
  and raw signals with non-empty time axes the access returns:
  \<open>all_waveforms_returns\<close>.)
\<close>

theorem waveform_cache_prefix:
  assumes "reachable ext cfg st" and "all_waveforms ext cfg st = (res, st')"
  shows "length (waveform_cache st) \<le> length (signals st) \<and>
         list_all2 (\<lambda>w s. \<exists>m. fst (process_signal ext cfg m s) = Inr w)
           (waveform_cache st) (take (length (waveform_cache st)) (signals st)) \<and>
         signals st' = signals st \<and>
         waveform_cache st' =
           waveform_cache st @
             fst (process_all ext cfg (noise_state st)
                    (drop (length (waveform_cache st)) (signals st))) \<and>
         length (waveform_cache st') \<le> length (signals st') \<and>
         (\<forall>ws. res = Inr ws \<longrightarrow>
            ws = waveform_cache st' \<and>
            length (waveform_cache st') = length (signals st') \<and>
            all_waveforms ext cfg st' = (Inr ws, st'))"
proof -
  note inv = reachable_invariant [OF assms(1)]
  from inv have le: "length (waveform_cache st) \<le> length (signals st)" ..
  note step = all_waveforms_step [OF le assms(2)]
  have "ws = waveform_cache st' \<and> length (waveform_cache st') = length (signals st') \<and>
        all_waveforms ext cfg st' = (Inr ws, st')" if "res = Inr ws" for ws
    using step(5) [OF that] by (simp add: all_waveforms_complete)
  with inv step(1,2,3) show ?thesis by blast
qed


theorem waveform_cache_prefix_witness:
  "reachable example_externals (example_config ''analytic'')
     (receive \<lparr>signals = [], waveform_cache = [], noise_state = 0\<rparr> example_signal) \<and>
   all_waveforms example_externals (example_config ''analytic'')
     (receive \<lparr>signals = [], waveform_cache = [], noise_state = 0\<rparr> example_signal) =
     (Inr [\<lparr>sig_times = [0, 1, 2], sig_values = [0, 3, 1], sig_value_type = Undefined\<rparr>],
      \<lparr>signals = [example_signal],
       waveform_cache =
         [\<lparr>sig_times = [0, 1, 2], sig_values = [0, 3, 1], sig_value_type = Undefined\<rparr>],
       noise_state = 1\<rparr>) \<and>
   all_waveforms example_externals (example_config ''analytic'')
     \<lparr>signals = [example_signal],
      waveform_cache =
        [\<lparr>sig_times = [0, 1, 2], sig_values = [0, 3, 1], sig_value_type = Undefined\<rparr>],
      noise_state = 1\<rparr> =
     (Inr [\<lparr>sig_times = [0, 1, 2], sig_values = [0, 3, 1], sig_value_type = Undefined\<rparr>],
      \<lparr>signals = [example_signal],
       waveform_cache =
         [\<lparr>sig_times = [0, 1, 2], sig_values = [0, 3, 1], sig_value_type = Undefined\<rparr>],
       noise_state = 1\<rparr>)"
proof -
  let ?st = "receive \<lparr>signals = [], waveform_cache = [], noise_state = 0::nat\<rparr> example_signal"
  let ?w = "\<lparr>sig_times = [0, 1, 2], sig_values = [0, 3, 1], sig_value_type = Undefined\<rparr>"
  let ?st' = "\<lparr>signals = [example_signal], waveform_cache = [?w], noise_state = 1::nat\<rparr>"
  have a: "\<not> sublist ''hilbert'' ''analytic''" "sublist ''analytic'' ''analytic''"
    by code_simp+
  have r: "reachable example_externals (example_config ''analytic'') ?st"
    by (intro reachable.intros)
  have acc: "all_waveforms example_externals (example_config ''analytic'') ?st
               = (Inr [?w], ?st')"
    using a
    by (simp add: all_waveforms_def all_waveforms_loop.simps receive_def process_signal_def
        long_times_def front_end_def make_envelope_def example_signal_def
        example_externals_def Signal_def amplified_values_def clip_def)
  from waveform_cache_prefix [OF r acc]
  have "all_waveforms example_externals (example_config ''analytic'') ?st' = (Inr [?w], ?st')"
    by blast
  with r acc show ?thesis by simp
qed

end
